theory Spec2Isabelle
  imports Complex_Main
begin

section \<open>Numbers of the source\<close>

text \<open>
  The C++ type \<open>int\<close> is modelled by \<open>int\<close>. The values the program computes with are
  pixel coordinates and sizes; signed overflow is undefined behaviour in C++ and is
  outside the model. What is modelled exactly is the rounding of integer division and of
  the conversion to \<open>int\<close>: both truncate toward zero.
\<close>

definition c_div :: "int \<Rightarrow> int \<Rightarrow> int" where
  \<comment> \<open>C++ \<open>a / b\<close> on \<open>int\<close>, for \<open>b \<noteq> 0\<close> (the source divides by 2 only).\<close>
  "c_div a b = sgn a * sgn b * (\<bar>a\<bar> div \<bar>b\<bar>)"

definition c_mod :: "int \<Rightarrow> int \<Rightarrow> int" where
  \<comment> \<open>C++ \<open>a % b\<close> on \<open>int\<close>: the remainder has the sign of \<open>a\<close>.\<close>
  "c_mod a b = a - c_div a b * b"

definition c_trunc :: "real \<Rightarrow> int" where
  \<comment> \<open>Conversion of a floating-point value to \<open>int\<close>: the fraction is discarded.\<close>
  "c_trunc r = (if 0 \<le> r then \<lfloor>r\<rfloor> else \<lceil>r\<rceil>)"

section \<open>Text layout\<close>

text \<open>
  The block of \<open>main\<close> under the comment \<open>// center\<close>, with the two measured heights
  \<open>titleroi.height()\<close> and \<open>subtitleroi.height()\<close> as arguments:
  \<^verbatim>\<open>
    int textheight = titleroi.height() + spacing + subtitleroi.height();
    titley = center - (textheight / 2);
    subtitley = titley + titleroi.height() + spacing;
  \<close>
\<close>

definition layout :: "int \<Rightarrow> int \<Rightarrow> int \<Rightarrow> int \<Rightarrow> int \<times> int" where
  "layout ht hs spacing center =
     (let textheight = ht + spacing + hs;
          titley = center - c_div textheight 2;
          subtitley = titley + ht + spacing
      in (titley, subtitley))"

section \<open>Floating-point values\<close>

text \<open>
  A \<open>float\<close> of the source is modelled by a real number: the arithmetic is exact and
  rounding is not modelled. The one operation of the source that leaves the finite
  numbers is the division in \<open>draw_gradient\<close>: a floating-point division by zero does not
  trap, it yields an infinity or a NaN. The type \<open>fl\<close> adds one element \<open>NonFinite\<close> that stands
  for those results; sums, differences and products with a non-finite operand are
  non-finite again.
\<close>

datatype fl = Num real | NonFinite

fun fl_add :: "fl \<Rightarrow> fl \<Rightarrow> fl" where
  "fl_add (Num a) (Num b) = Num (a + b)"
| "fl_add _ _ = NonFinite"

fun fl_sub :: "fl \<Rightarrow> fl \<Rightarrow> fl" where
  "fl_sub (Num a) (Num b) = Num (a - b)"
| "fl_sub _ _ = NonFinite"

fun fl_mul :: "fl \<Rightarrow> fl \<Rightarrow> fl" where
  "fl_mul (Num a) (Num b) = Num (a * b)"
| "fl_mul _ _ = NonFinite"

definition fl_div :: "real \<Rightarrow> real \<Rightarrow> fl" where
  \<comment> \<open>\<open>a / b\<close> on finite operands: \<open>0 / 0\<close> is a NaN, \<open>a / 0\<close> an infinity.\<close>
  "fl_div a b = (if b = 0 then NonFinite else Num (a / b))"

definition flt_epsilon :: real where
  \<comment> \<open>\<open>std::numeric_limits<float>::epsilon()\<close>\<close>
  "flt_epsilon = 1 / 2 ^ 23"

type_synonym vec3 = "real \<times> real \<times> real"

section \<open>Colour model\<close>

text \<open>The local variables of \<open>rgb_from_hsv\<close>, each as a function of what it is computed from.\<close>

definition hsv_hue :: "real \<Rightarrow> real" where
  \<comment> \<open>\<open>if (hue >= 360.0f) hue = 0.0f;\<close>\<close>
  "hsv_hue hue = (if 360 \<le> hue then 0 else hue)"

definition hsv_hi :: "real \<Rightarrow> int" where
  \<comment> \<open>\<open>static_cast<int>(std::floor(hue / 60.0f)) % 6\<close>\<close>
  "hsv_hi hue = c_mod \<lfloor>hue / 60\<rfloor> 6"

definition hsv_f :: "real \<Rightarrow> real" where
  "hsv_f hue = hue / 60 - real_of_int (hsv_hi hue)"

definition hsv_p :: "real \<Rightarrow> real \<Rightarrow> real" where
  "hsv_p saturation val = val * (1 - saturation)"

definition hsv_q :: "real \<Rightarrow> real \<Rightarrow> real \<Rightarrow> real" where
  "hsv_q hue saturation val = val * (1 - hsv_f hue * saturation)"

definition hsv_t :: "real \<Rightarrow> real \<Rightarrow> real \<Rightarrow> real" where
  "hsv_t hue saturation val = val * (1 - (1 - hsv_f hue) * saturation)"

definition rgb_from_hsv :: "vec3 \<Rightarrow> vec3" where
  "rgb_from_hsv hsv =
     (case hsv of (hue0, saturation, val) \<Rightarrow>
        let hue = hsv_hue hue0 in
        if val < flt_epsilon then (0, 0, 0)
        else if saturation < flt_epsilon then (val, val, val)
        else
          let hi = hsv_hi hue;
              p = hsv_p saturation val;
              q = hsv_q hue saturation val;
              t = hsv_t hue saturation val
          in if hi = 0 then (val, t, p)
             else if hi = 1 then (q, val, p)
             else if hi = 2 then (p, val, t)
             else if hi = 3 then (p, q, val)
             else if hi = 4 then (t, p, val)
             else if hi = 5 then (val, p, q)
             else (0, 0, 0))"

text \<open>
  The conversion as the specification words it, to compare with the source: the hue is
  wrapped to 0 from 360 on, a value below epsilon gives black, a saturation below epsilon
  gives the grey of the value, and otherwise the sector \<open>hi = floor(hue/60) mod 6\<close> selects
  a row of the six-sector table.
\<close>

definition hsv_table :: "real \<Rightarrow> real \<Rightarrow> real \<Rightarrow> real \<Rightarrow> vec3 list" where
  "hsv_table v p q t = [(v, t, p), (q, v, p), (p, v, t), (p, q, v), (t, p, v), (v, p, q)]"

definition hsv_reference :: "vec3 \<Rightarrow> vec3" where
  "hsv_reference hsv =
     (case hsv of (h, s, v) \<Rightarrow>
        let hue = (if h \<ge> 360 then 0 else h) in
        if v < flt_epsilon then (0, 0, 0)
        else if s < flt_epsilon then (v, v, v)
        else
          let hi = \<lfloor>hue / 60\<rfloor> mod 6;
              f = hue / 60 - of_int hi;
              p = v * (1 - s);
              q = v * (1 - f * s);
              t = v * (1 - (1 - f) * s)
          in hsv_table v p q t ! nat hi)"

section \<open>Regions and the image buffer\<close>

text \<open>
  \<open>ROI\<close> and \<open>ImageBuf\<close> are types of the OpenImageIO library. The model keeps what the
  program uses of them: the x and y bounds of a region with \<open>width()\<close> and \<open>height()\<close>,
  and a buffer of four-channel pixels of a given size in which \<open>setpixel\<close> outside of the
  image does nothing. A fresh buffer holds zeros.
\<close>

record ROI =
  xbegin :: int
  xend :: int
  ybegin :: int
  yend :: int

definition roi_width :: "ROI \<Rightarrow> int" where
  "roi_width roi = xend roi - xbegin roi"

definition roi_height :: "ROI \<Rightarrow> int" where
  "roi_height roi = yend roi - ybegin roi"

type_synonym pixel = "fl \<times> fl \<times> fl \<times> fl"

record ImageBuf =
  ib_width :: int
  ib_height :: int
  ib_pixels :: "int \<Rightarrow> int \<Rightarrow> pixel"

definition new_ImageBuf :: "int \<Rightarrow> int \<Rightarrow> ImageBuf" where
  "new_ImageBuf w h =
     \<lparr>ib_width = w, ib_height = h, ib_pixels = (\<lambda>x y. (Num 0, Num 0, Num 0, Num 0))\<rparr>"

definition in_image :: "ImageBuf \<Rightarrow> int \<Rightarrow> int \<Rightarrow> bool" where
  "in_image buf x y \<longleftrightarrow> 0 \<le> x \<and> x < ib_width buf \<and> 0 \<le> y \<and> y < ib_height buf"

definition getpixel :: "ImageBuf \<Rightarrow> int \<Rightarrow> int \<Rightarrow> pixel" where
  "getpixel buf x y = ib_pixels buf x y"

definition setpixel :: "ImageBuf \<Rightarrow> int \<Rightarrow> int \<Rightarrow> pixel \<Rightarrow> ImageBuf" where
  "setpixel buf x y p =
     (if in_image buf x y
      then buf\<lparr>ib_pixels := (ib_pixels buf)(x := (ib_pixels buf x)(y := p))\<rparr>
      else buf)"

definition set_row :: "ImageBuf \<Rightarrow> ROI \<Rightarrow> int \<Rightarrow> pixel \<Rightarrow> ImageBuf" where
  \<comment> \<open>\<open>for (int x = roi.xbegin; x < roi.xend; ++x) imagebuf.setpixel(x, y, p);\<close>\<close>
  "set_row buf roi y p = fold (\<lambda>x b. setpixel b x y p) [xbegin roi..xend roi - 1] buf"

definition fill :: "ImageBuf \<Rightarrow> pixel \<Rightarrow> ROI \<Rightarrow> ImageBuf" where
  \<comment> \<open>\<open>ImageBufAlgo::fill(dst, values, roi)\<close> of the library: every pixel of the region is set to the values.\<close>
  "fill dst vals roi = fold (\<lambda>y b. set_row b roi y vals) [ybegin roi..yend roi - 1] dst"

section \<open>Gradient\<close>

definition blend :: "ROI \<Rightarrow> int \<Rightarrow> fl" where
  \<comment> \<open>\<open>static_cast<float>(y - roi.ybegin) / (roi.height() - 1)\<close>\<close>
  "blend roi y = fl_div (real_of_int (y - ybegin roi)) (real_of_int (roi_height roi - 1))"

definition mix :: "fl \<Rightarrow> real \<Rightarrow> real \<Rightarrow> fl" where
  \<comment> \<open>\<open>(1 - blend) * startcolor[i] + blend * endcolor[i]\<close>\<close>
  "mix b s e = fl_add (fl_mul (fl_sub (Num 1) b) (Num s)) (fl_mul b (Num e))"

definition gradient_pixel :: "ROI \<Rightarrow> vec3 \<Rightarrow> vec3 \<Rightarrow> int \<Rightarrow> pixel" where
  "gradient_pixel roi startcolor endcolor y =
     (case startcolor of (s0, s1, s2) \<Rightarrow> case endcolor of (e0, e1, e2) \<Rightarrow>
        let b = blend roi y;
            r = mix b s0 e0;
            g = mix b s1 e1;
            bl = mix b s2 e2
        in (r, g, bl, Num 1))"

definition draw_gradient :: "ImageBuf \<Rightarrow> ROI \<Rightarrow> vec3 \<Rightarrow> vec3 \<Rightarrow> ImageBuf" where
  "draw_gradient imagebuf roi startcolor endcolor =
     fold (\<lambda>y b. set_row b roi y (gradient_pixel roi startcolor endcolor y))
       [ybegin roi..yend roi - 1] imagebuf"

section \<open>Hue table\<close>

text \<open>
  The table of \<open>main\<close> is a \<open>std::map<std::string, float>\<close>: its entries are kept sorted
  by key, compared as strings of bytes, and it is filled by ten assignments.
\<close>

fun string_less :: "string \<Rightarrow> string \<Rightarrow> bool" where
  "string_less [] [] = False"
| "string_less [] (y # ys) = True"
| "string_less (x # xs) [] = False"
| "string_less (x # xs) (y # ys) =
     ((of_char x :: nat) < of_char y \<or> (x = y \<and> string_less xs ys))"

fun map_set :: "string \<Rightarrow> real \<Rightarrow> (string \<times> real) list \<Rightarrow> (string \<times> real) list" where
  "map_set k v [] = [(k, v)]"
| "map_set k v ((k', v') # m) =
     (if k = k' then (k, v) # m
      else if string_less k k' then (k, v) # (k', v') # m
      else (k', v') # map_set k v m)"

definition map_find :: "(string \<times> real) list \<Rightarrow> string \<Rightarrow> real option" where
  "map_find m k = map_of m k"

definition hues :: "(string \<times> real) list" where
  "hues =
     (map_set ''rose'' 330 (map_set ''magenta'' 300 (map_set ''violet'' 270
     (map_set ''blue'' 240 (map_set ''azure'' 210 (map_set ''cyan'' 180
     (map_set ''green'' 120 (map_set ''yellow'' 60 (map_set ''orange'' 30
     (map_set ''red'' 360 []))))))))))"

definition options_of :: "(string \<times> real) list \<Rightarrow> string" where
  \<comment> \<open>the loop that joins the keys of the table with \<open>", "\<close>\<close>
  "options_of m =
     fold (\<lambda>pair options. (if options \<noteq> [] then options @ '', '' else options) @ fst pair) m []"

section \<open>The program\<close>

definition print_info :: "string \<Rightarrow> string \<Rightarrow> string" where
  "print_info param val = ''info: '' @ param @ val"

definition print_warning :: "string \<Rightarrow> string \<Rightarrow> string" where
  "print_warning param val = ''warning: '' @ param @ val"

definition print_error :: "string \<Rightarrow> string \<Rightarrow> string" where
  "print_error param val = ''error: '' @ param @ val"

definition EXIT_SUCCESS :: int where "EXIT_SUCCESS = 0"

definition EXIT_FAILURE :: int where "EXIT_FAILURE = 1"

record TitleTool =
  tool_help :: bool
  tool_verbose :: bool
  tool_title :: string
  tool_subtitle :: string
  tool_outputfile :: string
  tool_gradient :: string
  tool_background :: vec3
  tool_color :: vec3
  tool_size :: "int \<times> int"
  tool_debug :: bool
  tool_code :: int

datatype TextAlignX = AlignX_Left | AlignX_Right | AlignX_Center

datatype TextAlignY = AlignY_Baseline | AlignY_Top | AlignY_Bottom | AlignY_Center

text \<open>
  The collaborators of the program, which are not code of the repository: the directory
  of the running program, the library's text measurement and text drawing, and the
  image writer, which returns the message of \<open>geterror()\<close> when it fails.
\<close>

record Env =
  program_dir :: string
  text_size :: "string \<Rightarrow> int \<Rightarrow> string \<Rightarrow> ROI"
  render_text :: "ImageBuf \<Rightarrow> int \<Rightarrow> int \<Rightarrow> string \<Rightarrow> int \<Rightarrow> string \<Rightarrow> pixel
                  \<Rightarrow> TextAlignX \<Rightarrow> TextAlignY \<Rightarrow> ImageBuf"
  write_image :: "ImageBuf \<Rightarrow> string \<Rightarrow> string option"

record Run =
  exit_status :: int
  stdout :: "string list"
  stderr :: "string list"
  canvas :: "ImageBuf option"

definition font_path :: "Env \<Rightarrow> string \<Rightarrow> string" where
  "font_path env font = program_dir env @ ''/fonts/'' @ font"

definition color4 :: "vec3 \<Rightarrow> pixel" where
  \<comment> \<open>\<open>{ c.x, c.y, c.z, 1.0f }\<close>\<close>
  "color4 c = (case c of (x, y, z) \<Rightarrow> (Num x, Num y, Num z, Num 1))"

definition canvas_roi :: "TitleTool \<Rightarrow> ROI" where
  \<comment> \<open>\<open>ROI roi(0, tool.size.x, 0, tool.size.y);\<close>\<close>
  "canvas_roi tool =
     \<lparr>xbegin = 0, xend = fst (tool_size tool), ybegin = 0, yend = snd (tool_size tool)\<rparr>"

text \<open>
  The block \<open>// background\<close> of \<open>main\<close>: it returns the lines printed and the buffer.
\<close>

definition background :: "TitleTool \<Rightarrow> ROI \<Rightarrow> ImageBuf \<Rightarrow> string list \<times> ImageBuf" where
  "background tool roi imagebuf =
     (let (found, out, buf) =
        (if length (tool_gradient tool) > 0 then
           let out0 = [print_info ''tool.gradient: '' (tool_gradient tool)] in
           (case map_find hues (tool_gradient tool) of
              Some hue \<Rightarrow>
                (True, out0,
                 draw_gradient imagebuf roi
                   (rgb_from_hsv (hue, 1, 1 / 2)) (rgb_from_hsv (hue, 1 / 2, 4 / 5)))
            | None \<Rightarrow>
                (False,
                 out0 @ [print_warning ''could not find hue for gradient: '' (tool_gradient tool),
                         print_warning ''available options are: '' (options_of hues)],
                 imagebuf))
         else (False, [], imagebuf))
      in (out, if \<not> found then fill buf (color4 (tool_background tool)) roi else buf))"

text \<open>
  The two measurements of the block \<open>// center\<close>:
  \<^verbatim>\<open>
    ROI titleroi = ImageBufAlgo::text_size(tool.title, titlesize, font_path(font));
    ROI subtitleroi = ImageBufAlgo::text_size(tool.title, subtitlesize, font_path(font));
  \<close>
\<close>

definition measure :: "Env \<Rightarrow> TitleTool \<Rightarrow> int \<Rightarrow> int \<Rightarrow> string \<Rightarrow> ROI \<times> ROI" where
  "measure env tool titlesize subtitlesize font =
     (let titleroi = text_size env (tool_title tool) titlesize (font_path env font);
          subtitleroi = text_size env (tool_title tool) subtitlesize (font_path env font)
      in (titleroi, subtitleroi))"

text \<open>
  The earlier variant of the tool (the second source file, which has no gradient) measures
  both blocks from the title at the title size:
  \<^verbatim>\<open>
    ROI titleroi = ImageBufAlgo::text_size(tool.title, titlesize, "../Roboto.ttf");
    ROI subtitleroi = ImageBufAlgo::text_size(tool.title, titlesize, "../Roboto.ttf");
  \<close>
\<close>

definition measure_variant :: "Env \<Rightarrow> TitleTool \<Rightarrow> int \<Rightarrow> int \<Rightarrow> ROI \<times> ROI" where
  "measure_variant env tool titlesize subtitlesize =
     (let titleroi = text_size env (tool_title tool) titlesize ''../Roboto.ttf'';
          subtitleroi = text_size env (tool_title tool) titlesize ''../Roboto.ttf''
      in (titleroi, subtitleroi))"

text \<open>
  The program from the comment \<open>// titletool program\<close> to the second \<open>render_text\<close>: it
  returns the lines printed and the buffer that is then written.
\<close>

definition compose :: "Env \<Rightarrow> TitleTool \<Rightarrow> string list \<times> ImageBuf" where
  "compose env tool =
     (let out1 = [print_info ''titletool -- a utility for creating title images'' [],
                  print_info ''Writing title file: '' (tool_outputfile tool)];
          imagebuf = new_ImageBuf (fst (tool_size tool)) (snd (tool_size tool));
          roi = canvas_roi tool;
          height = roi_height roi;
          titlesize = c_trunc (real_of_int height * 0.2);
          subtitlesize = c_trunc (real_of_int height * 0.1);
          center = ybegin roi + c_div height 2;
          spacing = c_trunc (real_of_int height * 0.08);
          font = ''Roboto.ttf'';
          (out2, imagebuf1) = background tool roi imagebuf;
          (titleroi, subtitleroi) = measure env tool titlesize subtitlesize font;
          (titley, subtitley) = layout (roi_height titleroi) (roi_height subtitleroi) spacing center;
          imagebuf2 = render_text env imagebuf1 (xbegin roi + c_div (roi_width roi) 2) titley
                        (tool_title tool) titlesize (font_path env font)
                        (color4 (tool_color tool)) AlignX_Center AlignY_Top;
          imagebuf3 = render_text env imagebuf2 (xbegin roi + c_div (roi_width roi) 2) subtitley
                        (tool_subtitle tool) subtitlesize (font_path env font)
                        (color4 (tool_color tool)) AlignX_Center AlignY_Top
      in (out1 @ out2, imagebuf3))"

text \<open>
  The end of the program:
  \<^verbatim>\<open>
    if (!imagebuf.write(tool.outputfile)) {
        print_error("could not write output file", imagebuf.geterror());
    }
    return 0;
  \<close>
\<close>

definition titletool :: "Env \<Rightarrow> TitleTool \<Rightarrow> Run" where
  "titletool env tool =
     (let (out, imagebuf) = compose env tool
      in (case write_image env imagebuf (tool_outputfile tool) of
            None \<Rightarrow>
              \<lparr>exit_status = 0, stdout = out, stderr = [], canvas = Some imagebuf\<rparr>
          | Some msg \<Rightarrow>
              \<lparr>exit_status = 0, stdout = out,
               stderr = [print_error ''could not write output file'' msg],
               canvas = Some imagebuf\<rparr>))"

text \<open>
  \<open>main\<close> after the parsing of the arguments, which has filled \<open>tool\<close>: the request
  for help, the two usage checks, then the program. The help and usage texts that the
  argument parser prints are not modelled.
\<close>

definition main :: "Env \<Rightarrow> int \<Rightarrow> TitleTool \<Rightarrow> Run" where
  "main env argc tool =
     (if tool_help tool then
        \<lparr>exit_status = EXIT_SUCCESS, stdout = [], stderr = [], canvas = None\<rparr>
      else if length (tool_outputfile tool) = 0 then
        \<lparr>exit_status = EXIT_FAILURE, stdout = [],
         stderr = [print_error ''must have output file parameter'' []], canvas = None\<rparr>
      else if argc \<le> 1 then
        \<lparr>exit_status = EXIT_FAILURE, stdout = [],
         stderr = [print_error ([CHR 0x0A] @ ''For detailed help: titletool --help'' @ [CHR 0x0A]) []],
         canvas = None\<rparr>
      else titletool env tool)"

section \<open>An example run\<close>

text \<open>
  Collaborators and a configuration for the examples. The measurement gives a line of
  text the height of the font size and an empty text the height 0; the drawing leaves
  the buffer as it is; the writer succeeds or fails with a message, as the argument says.
\<close>

definition demo_text_size :: "string \<Rightarrow> int \<Rightarrow> string \<Rightarrow> ROI" where
  "demo_text_size text fontsize font =
     \<lparr>xbegin = 0, xend = int (length text) * fontsize,
      ybegin = 0, yend = (if text = [] then 0 else fontsize)\<rparr>"

definition demo_env :: "string option \<Rightarrow> Env" where
  "demo_env result =
     \<lparr>program_dir = ''/opt/titletool/bin'',
      text_size = demo_text_size,
      render_text = (\<lambda>buf x y text fontsize font color alignx aligny. buf),
      write_image = (\<lambda>buf path. result)\<rparr>"

definition demo_tool :: "string \<Rightarrow> string \<Rightarrow> string \<Rightarrow> TitleTool" where
  "demo_tool t st g =
     \<lparr>tool_help = False, tool_verbose = False, tool_title = t, tool_subtitle = st,
      tool_outputfile = ''title.png'', tool_gradient = g,
      tool_background = (0, 0, 0), tool_color = (1, 1, 1), tool_size = (2350, 1000),
      tool_debug = False, tool_code = EXIT_SUCCESS\<rparr>"

section \<open>Properties of the layout\<close>

lemma c_div_nonneg: "0 \<le> a \<Longrightarrow> 0 < b \<Longrightarrow> c_div a b = a div b"
  by (cases "a = 0") (simp_all add: c_div_def)

lemma c_div_neg: "a < 0 \<Longrightarrow> 0 < b \<Longrightarrow> c_div a b = - ((- a) div b)"
  by (simp add: c_div_def)

text \<open>
  Claim C1, as stated, at a negative total height: for \<open>ht = 0\<close>, \<open>hs = 0\<close>,
  \<open>spacing = -1\<close> and \<open>centerY = 0\<close> the total height is \<open>-1\<close>; the source's
  division gives \<open>-1 / 2 = 0\<close> and \<open>titleY = 0\<close>, where flooring division gives
  \<open>-1\<close> and \<open>titleY = 1\<close>.
\<close>

theorem layout_floor_counterexample:
  "layout 0 0 (- 1) 0 = (0, - 1) \<and>
   (0 - (0 + (- 1) + 0) div 2, 0 - (0 + (- 1) + 0) div 2 + 0 + (- 1)) = (1 :: int, 0 :: int) \<and>
   layout 0 0 (- 1) 0 \<noteq> (0 - (0 + (- 1) + 0) div 2, 0 - (0 + (- 1) + 0) div 2 + 0 + (- 1))"
  by (simp add: layout_def c_div_def)

text \<open>
  Claim C1, amended: the half of the total height \<open>ht + spacing + hs\<close> is rounded toward
  zero; \<open>titleY\<close> is \<open>centerY\<close> minus that half and \<open>subtitleY = titleY + ht + spacing\<close>.
  For a total height that is not negative this is flooring division, and for
  \<open>ht = 100\<close>, \<open>hs = 50\<close>, \<open>spacing = 20\<close>, \<open>centerY = 500\<close> the result is
  \<open>titleY = 415\<close> and \<open>subtitleY = 535\<close>.
\<close>

theorem layout_truncating:
  "(0 \<le> ht + spacing + hs \<longrightarrow>
      layout ht hs spacing centerY =
        (centerY - (ht + spacing + hs) div 2,
         centerY - (ht + spacing + hs) div 2 + ht + spacing)) \<and>
   (ht + spacing + hs < 0 \<longrightarrow>
      layout ht hs spacing centerY =
        (centerY + (- (ht + spacing + hs)) div 2,
         centerY + (- (ht + spacing + hs)) div 2 + ht + spacing)) \<and>
   layout 100 50 20 500 = (415, 535)"
  by (simp add: layout_def Let_def c_div_nonneg c_div_neg)

theorem layout_truncating_witness:
  "0 \<le> (100::int) + 20 + 50 \<and> layout 100 50 20 500 = (500 - (100 + 20 + 50) div 2, 500 - (100 + 20 + 50) div 2 + 100 + 20) \<and>
   (3::int) + (- 10) + 2 < 0 \<and> layout 3 2 (- 10) 7 = (7 + (- (3 + (- 10) + 2)) div 2, 7 + (- (3 + (- 10) + 2)) div 2 + 3 + (- 10))"
  using layout_truncating [of 100 20 50 500] layout_truncating [of 3 "- 10" 2 7] by simp

section \<open>Properties of the colour conversion\<close>

lemma c_mod_nonneg: "0 \<le> a \<Longrightarrow> 0 < b \<Longrightarrow> c_mod a b = a mod b"
  by (simp add: c_mod_def c_div_nonneg minus_div_mult_eq_mod)

lemma hsv_hue_range: "0 \<le> h \<Longrightarrow> 0 \<le> hsv_hue h \<and> hsv_hue h < 360"
  by (simp add: hsv_hue_def)

lemma floor_sector: "0 \<le> (hue::real) \<Longrightarrow> hue < 360 \<Longrightarrow> 0 \<le> \<lfloor>hue / 60\<rfloor> \<and> \<lfloor>hue / 60\<rfloor> \<le> 5"
  by (simp add: floor_less_iff le_floor_iff flip: less_Suc_eq_le) 

lemma hsv_hi_sector:
  assumes "0 \<le> hue" "hue < 360"
  shows "hsv_hi hue = \<lfloor>hue / 60\<rfloor>" "0 \<le> hsv_hi hue" "hsv_hi hue \<le> 5"
  using floor_sector[OF assms] by (simp_all add: hsv_hi_def c_mod_nonneg)

lemma hsv_f_range:
  assumes "0 \<le> hue" "hue < 360"
  shows "0 \<le> hsv_f hue" "hsv_f hue < 1"
  using hsv_hi_sector(1)[OF assms] by (simp_all add: hsv_f_def) linarith+

lemma table_select:
  "0 \<le> hi \<Longrightarrow> hi \<le> 5 \<Longrightarrow>
   hsv_table v p q t ! nat hi =
     (if hi = 0 then (v, t, p) else if hi = 1 then (q, v, p) else if hi = 2 then (p, v, t)
      else if hi = 3 then (p, q, v) else if hi = 4 then (t, p, v) else if hi = 5 then (v, p, q) else (0,0,0))"
proof -
  assume "0 \<le> hi" "hi \<le> 5"
  then consider "hi = 0" | "hi = 1" | "hi = 2" | "hi = 3" | "hi = 4" | "hi = 5" by linarith
  then show ?thesis by cases (simp_all add: hsv_table_def nth_Cons')
qed


lemma unit_product: "0 \<le> (a::real) \<Longrightarrow> a \<le> 1 \<Longrightarrow> 0 \<le> b \<Longrightarrow> b \<le> 1 \<Longrightarrow> 0 \<le> 1 - a * b \<and> 1 - a * b \<le> 1"
  by (simp add: mult_le_one)

lemma scaled_unit: "0 \<le> (v::real) \<Longrightarrow> 0 \<le> c \<Longrightarrow> c \<le> 1 \<Longrightarrow> 0 \<le> v * c \<and> v * c \<le> v"
  by (simp add: mult_left_le)

lemma hsv_p_range: "0 \<le> s \<Longrightarrow> s \<le> 1 \<Longrightarrow> 0 \<le> v \<Longrightarrow> 0 \<le> hsv_p s v \<and> hsv_p s v \<le> v"
  unfolding hsv_p_def by (rule scaled_unit) simp_all

lemma hsv_q_range:
  assumes "0 \<le> hue" "hue < 360" "0 \<le> s" "s \<le> 1" "0 \<le> v"
  shows "0 \<le> hsv_q hue s v \<and> hsv_q hue s v \<le> v"
proof -
  have f: "0 \<le> hsv_f hue" "hsv_f hue \<le> 1" using hsv_f_range[OF assms(1,2)] by simp_all
  show ?thesis unfolding hsv_q_def
    using unit_product[OF f assms(3,4)] assms(5) by (intro scaled_unit) simp_all
qed

lemma hsv_t_range:
  assumes "0 \<le> hue" "hue < 360" "0 \<le> s" "s \<le> 1" "0 \<le> v"
  shows "0 \<le> hsv_t hue s v \<and> hsv_t hue s v \<le> v"
proof -
  have f: "0 \<le> 1 - hsv_f hue" "1 - hsv_f hue \<le> 1" using hsv_f_range[OF assms(1,2)] by simp_all
  show ?thesis unfolding hsv_t_def
    using unit_product[OF f assms(3,4)] assms(5) by (intro scaled_unit) simp_all
qed

text \<open>
  Claim C2. For a hue that is not negative, \<open>rgb_from_hsv\<close> equals the reference
  definition \<open>hsv_reference\<close>. For every hue: a hue from 360 on gives the result of hue 0,
  a value below epsilon gives \<open>(0, 0, 0)\<close> whatever the hue and the saturation, and
  otherwise a saturation below epsilon gives \<open>(value, value, value)\<close>. In particular
  \<open>hsv(0,1,1) = (1,0,0)\<close>, \<open>hsv(120,1,1) = (0,1,0)\<close>, \<open>hsv(240,1,1) = (0,0,1)\<close>, and
  hue 360 gives what hue 0 gives for all saturations and values. (The specification
  leaves the negative hues open.)
\<close>

theorem rgb_from_hsv_reference:
  "(0 \<le> h \<longrightarrow> rgb_from_hsv (h, s, v) = hsv_reference (h, s, v)) \<and>
   (360 \<le> h \<longrightarrow> rgb_from_hsv (h, s, v) = rgb_from_hsv (0, s, v)) \<and>
   (v < flt_epsilon \<longrightarrow> rgb_from_hsv (h, s, v) = (0, 0, 0)) \<and>
   (\<not> v < flt_epsilon \<and> s < flt_epsilon \<longrightarrow> rgb_from_hsv (h, s, v) = (v, v, v)) \<and>
   rgb_from_hsv (0, 1, 1) = (1, 0, 0) \<and>
   rgb_from_hsv (120, 1, 1) = (0, 1, 0) \<and>
   rgb_from_hsv (240, 1, 1) = (0, 0, 1) \<and>
   rgb_from_hsv (360, s, v) = rgb_from_hsv (0, s, v)"
proof -
  have ref: "rgb_from_hsv (h, s, v) = hsv_reference (h, s, v)" if h: "0 \<le> h"
  proof -
    have r: "0 \<le> hsv_hue h" "hsv_hue h < 360" using hsv_hue_range[OF h] by simp_all
    note hi = hsv_hi_sector[OF r]
    have m: "\<lfloor>hsv_hue h / 60\<rfloor> mod 6 = hsv_hi (hsv_hue h)"
      using hi by simp
    show ?thesis
      unfolding rgb_from_hsv_def hsv_reference_def
      using hi(2,3)
      by (simp add: Let_def m table_select hsv_p_def hsv_q_def hsv_t_def hsv_f_def
          flip: hsv_hue_def)
  qed
  have wrap: "rgb_from_hsv (h', s, v) = rgb_from_hsv (0, s, v)" if "360 \<le> h'" for h'
    using that by (simp add: rgb_from_hsv_def hsv_hue_def)
  have black: "v < flt_epsilon \<longrightarrow> rgb_from_hsv (h, s, v) = (0, 0, 0)"
    by (simp add: rgb_from_hsv_def)
  have grey: "\<not> v < flt_epsilon \<and> s < flt_epsilon \<longrightarrow> rgb_from_hsv (h, s, v) = (v, v, v)"
    by (simp add: rgb_from_hsv_def)
  have red: "rgb_from_hsv (0, 1, 1) = (1, 0, 0)"
    by (simp add: rgb_from_hsv_def hsv_hue_def flt_epsilon_def hsv_hi_def c_mod_def c_div_def
        hsv_p_def hsv_q_def hsv_t_def hsv_f_def Let_def)
  have green: "rgb_from_hsv (120, 1, 1) = (0, 1, 0)"
    by (simp add: rgb_from_hsv_def hsv_hue_def flt_epsilon_def hsv_hi_def c_mod_def c_div_def
        hsv_p_def hsv_q_def hsv_t_def hsv_f_def Let_def)
  have blue: "rgb_from_hsv (240, 1, 1) = (0, 0, 1)"
    by (simp add: rgb_from_hsv_def hsv_hue_def flt_epsilon_def hsv_hi_def c_mod_def c_div_def
        hsv_p_def hsv_q_def hsv_t_def hsv_f_def Let_def)
  from ref wrap[of h] wrap[of 360] black grey red green blue show ?thesis
    by blast
qed

theorem rgb_from_hsv_reference_witness:
  "(0::real) \<le> 400 \<and> rgb_from_hsv (400, 1, 1) = hsv_reference (400, 1, 1) \<and>
   (360::real) \<le> 400 \<and> rgb_from_hsv (400, 1, 1) = rgb_from_hsv (0, 1, 1) \<and>
   (0::real) < flt_epsilon \<and> rgb_from_hsv (30, 1, 0) = (0, 0, 0) \<and>
   \<not> (1::real) < flt_epsilon \<and> rgb_from_hsv (30, 0, 1) = (1, 1, 1)"
proof -
  have n: "(0::real) \<le> 400" "(360::real) \<le> 400" by simp_all
  have e: "(0::real) < flt_epsilon" "\<not> (1::real) < flt_epsilon"
    by (simp_all add: flt_epsilon_def)
  have a: "rgb_from_hsv (400, 1, 1) = hsv_reference (400, 1, 1)"
    and b: "rgb_from_hsv (400, 1, 1) = rgb_from_hsv (0, 1, 1)"
    using rgb_from_hsv_reference [of 400 1 1] n by blast+
  have c: "rgb_from_hsv (30, 1, 0) = (0, 0, 0)"
    using rgb_from_hsv_reference [of 30 1 0] e by blast
  have d: "rgb_from_hsv (30, 0, 1) = (1, 1, 1)"
    using rgb_from_hsv_reference [of 30 0 1] e by blast
  from n e a b c d show ?thesis by blast
qed

text \<open>
  Claim C10. For a hue in \<open>[0, 360]\<close>, a saturation and a value in \<open>[0, 1]\<close>, the three
  channels that \<open>rgb_from_hsv\<close> returns lie in \<open>[0, 1]\<close>; the function does no clamping,
  and its intermediate values \<open>p\<close>, \<open>q\<close> and \<open>t\<close> lie in \<open>[0, value]\<close>.
\<close>

theorem rgb_from_hsv_unit_range:
  assumes "0 \<le> h" "h \<le> 360" "0 \<le> s" "s \<le> 1" "0 \<le> v" "v \<le> 1"
  shows "(case rgb_from_hsv (h, s, v) of (r, g, b) \<Rightarrow>
           0 \<le> r \<and> r \<le> 1 \<and> 0 \<le> g \<and> g \<le> 1 \<and> 0 \<le> b \<and> b \<le> 1) \<and>
         0 \<le> hsv_p s v \<and> hsv_p s v \<le> v \<and>
         0 \<le> hsv_q (hsv_hue h) s v \<and> hsv_q (hsv_hue h) s v \<le> v \<and>
         0 \<le> hsv_t (hsv_hue h) s v \<and> hsv_t (hsv_hue h) s v \<le> v"
proof -
  have r: "0 \<le> hsv_hue h" "hsv_hue h < 360" using hsv_hue_range[OF assms(1)] by simp_all
  note p = hsv_p_range[OF assms(3,4,5)]
  note q = hsv_q_range[OF r assms(3,4,5)]
  note t = hsv_t_range[OF r assms(3,4,5)]
  have "case rgb_from_hsv (h, s, v) of (r, g, b) \<Rightarrow>
           0 \<le> r \<and> r \<le> 1 \<and> 0 \<le> g \<and> g \<le> 1 \<and> 0 \<le> b \<and> b \<le> 1"
    using p q t assms(5,6) by (simp add: rgb_from_hsv_def Let_def)
  with p q t show ?thesis by simp
qed

theorem rgb_from_hsv_unit_range_witness:
  "(0::real) \<le> 210 \<and> (210::real) \<le> 360 \<and> (0::real) \<le> 1 / 2 \<and> (1 / 2 :: real) \<le> 1 \<and>
   (0::real) \<le> 4 / 5 \<and> (4 / 5 :: real) \<le> 1 \<and>
   (case rgb_from_hsv (210, 1 / 2, 4 / 5) of (r, g, b) \<Rightarrow>
      0 \<le> r \<and> r \<le> 1 \<and> 0 \<le> g \<and> g \<le> 1 \<and> 0 \<le> b \<and> b \<le> 1) \<and>
   0 \<le> hsv_p (1 / 2) (4 / 5) \<and> hsv_p (1 / 2) (4 / 5) \<le> 4 / 5 \<and>
   0 \<le> hsv_q (hsv_hue 210) (1 / 2) (4 / 5) \<and> hsv_q (hsv_hue 210) (1 / 2) (4 / 5) \<le> 4 / 5 \<and>
   0 \<le> hsv_t (hsv_hue 210) (1 / 2) (4 / 5) \<and> hsv_t (hsv_hue 210) (1 / 2) (4 / 5) \<le> 4 / 5"
  using rgb_from_hsv_unit_range [of 210 "1 / 2" "4 / 5"] by simp

section \<open>Properties of the buffer and of the gradient\<close>

lemma in_image_setpixel: "in_image (setpixel b x y p) x' y' = in_image b x' y'"
  by (simp add: setpixel_def in_image_def)

lemma getpixel_setpixel:
  "getpixel (setpixel b x y p) x' y' =
     (if in_image b x y \<and> x' = x \<and> y' = y then p else getpixel b x' y')"
  by (simp add: setpixel_def getpixel_def)

lemma in_image_columns:
  "in_image (fold (\<lambda>x b. setpixel b x y p) xs buf) x' y' = in_image buf x' y'"
  by (induction xs arbitrary: buf) (simp_all add: in_image_setpixel)

lemma getpixel_columns:
  "getpixel (fold (\<lambda>x b. setpixel b x y p) xs buf) x' y' =
     (if x' \<in> set xs \<and> y' = y \<and> in_image buf x' y' then p else getpixel buf x' y')"
proof (induction xs arbitrary: buf)
  case Nil
  show ?case by simp
next
  case (Cons x xs)
  show ?case
    by (auto simp add: Cons.IH in_image_setpixel getpixel_setpixel)
qed

lemma in_image_set_row: "in_image (set_row buf roi y p) x' y' = in_image buf x' y'"
  by (simp add: set_row_def in_image_columns)

lemma getpixel_set_row:
  "getpixel (set_row buf roi y p) x' y' =
     (if xbegin roi \<le> x' \<and> x' < xend roi \<and> y' = y \<and> in_image buf x' y'
      then p else getpixel buf x' y')"
  by (auto simp add: set_row_def getpixel_columns)

lemma in_image_rows:
  "in_image (fold (\<lambda>y b. set_row b roi y (c y)) ys buf) x' y' = in_image buf x' y'"
  by (induction ys arbitrary: buf) (simp_all add: in_image_set_row)

lemma getpixel_rows:
  "getpixel (fold (\<lambda>y b. set_row b roi y (c y)) ys buf) x' y' =
     (if y' \<in> set ys \<and> xbegin roi \<le> x' \<and> x' < xend roi \<and> in_image buf x' y'
      then c y' else getpixel buf x' y')"
proof (induction ys arbitrary: buf)
  case Nil
  show ?case by simp
next
  case (Cons y ys)
  show ?case
    by (auto simp add: Cons.IH in_image_set_row getpixel_set_row)
qed

lemma getpixel_draw_gradient:
  "getpixel (draw_gradient buf roi s e) x y =
     (if ybegin roi \<le> y \<and> y < yend roi \<and> xbegin roi \<le> x \<and> x < xend roi \<and> in_image buf x y
      then gradient_pixel roi s e y else getpixel buf x y)"
  by (auto simp add: draw_gradient_def getpixel_rows)

lemma getpixel_fill:
  "getpixel (fill buf v roi) x y =
     (if ybegin roi \<le> y \<and> y < yend roi \<and> xbegin roi \<le> x \<and> x < xend roi \<and> in_image buf x y
      then v else getpixel buf x y)"
  by (auto simp add: fill_def getpixel_rows)

lemma in_image_draw_gradient: "in_image (draw_gradient buf roi s e) x y = in_image buf x y"
  by (simp add: draw_gradient_def in_image_rows)

lemma in_image_fill: "in_image (fill buf v roi) x y = in_image buf x y"
  by (simp add: fill_def in_image_rows)

lemma blend_num:
  "roi_height roi \<noteq> 1 \<Longrightarrow>
   blend roi y = Num (real_of_int (y - ybegin roi) / real_of_int (roi_height roi - 1))"
  by (simp add: blend_def fl_div_def)

lemma blend_one: "roi_height roi = 1 \<Longrightarrow> blend roi y = NonFinite"
  by (simp add: blend_def fl_div_def)

lemma mix_num: "mix (Num b) s e = Num ((1 - b) * s + b * e)"
  by (simp add: mix_def)

lemma gradient_pixel_top:
  "2 \<le> roi_height roi \<Longrightarrow> gradient_pixel roi (s0, s1, s2) e (ybegin roi) = (Num s0, Num s1, Num s2, Num 1)"
  by (cases e) (simp add: gradient_pixel_def blend_num mix_num)

lemma blend_bottom: "2 \<le> roi_height roi \<Longrightarrow> blend roi (yend roi - 1) = Num 1"
proof -
  assume h: "2 \<le> roi_height roi"
  have "yend roi - 1 - ybegin roi = roi_height roi - 1" by (simp add: roi_height_def)
  with h show ?thesis by (simp add: blend_def fl_div_def)
qed

lemma gradient_pixel_bottom:
  "2 \<le> roi_height roi \<Longrightarrow> gradient_pixel roi s (e0, e1, e2) (yend roi - 1) = (Num e0, Num e1, Num e2, Num 1)"
  by (cases s) (simp add: gradient_pixel_def blend_bottom mix_num)

lemma gradient_pixel_single:
  "roi_height roi = 1 \<Longrightarrow> gradient_pixel roi s e y = (NonFinite, NonFinite, NonFinite, Num 1)"
  by (cases s; cases e) (simp add: gradient_pixel_def blend_one mix_def)

lemma blend_mono:
  assumes "2 \<le> roi_height roi" "y < y'"
  shows "\<exists>b b'. blend roi y = Num b \<and> blend roi y' = Num b' \<and> b < b'"
  using assms by (simp add: blend_num divide_strict_right_mono)

lemma alpha_one: "snd (snd (snd (gradient_pixel roi s e y))) = Num 1"
  by (cases s; cases e) (simp add: gradient_pixel_def Let_def)

text \<open>
  Claim C5, at a region of height 1: the canvas of \<open>--size "4,1"\<close> with the endpoint
  colours of the gradient \<open>red\<close>. The divisor \<open>roi.height() - 1\<close> is zero, the blend factor
  \<open>0 / 0\<close> is not a number, and the single row receives non-finite colour channels, not
  the start colour.
\<close>

theorem draw_gradient_height_one:
  "blend \<lparr>xbegin = 0, xend = 4, ybegin = 0, yend = 1\<rparr> 0 = NonFinite \<and>
   getpixel (draw_gradient (new_ImageBuf 4 1) \<lparr>xbegin = 0, xend = 4, ybegin = 0, yend = 1\<rparr>
               (1 / 2, 0, 0) (4 / 5, 2 / 5, 2 / 5)) 0 0
     = (NonFinite, NonFinite, NonFinite, Num 1) \<and>
   getpixel (draw_gradient (new_ImageBuf 4 1) \<lparr>xbegin = 0, xend = 4, ybegin = 0, yend = 1\<rparr>
               (1 / 2, 0, 0) (4 / 5, 2 / 5, 2 / 5)) 0 0
     \<noteq> (Num (1 / 2), Num 0, Num 0, Num 1)"
  by (simp add: getpixel_draw_gradient gradient_pixel_single blend_one roi_height_def
      in_image_def new_ImageBuf_def)

text \<open>
  Claim C6. For a region of height at least 2 and every pair of endpoint colours, after
  \<open>draw_gradient\<close> every pixel of the top row of the region has the start colour and
  every pixel of the bottom row the end colour, the blend factor increases strictly with
  \<open>y\<close> over the rows of the region, the pixels of one row all have the same colour, and
  the alpha channel of every pixel written is 1. (The pixels are those of the region that
  lie in the image: \<open>setpixel\<close> writes no other.)
\<close>

theorem draw_gradient_rows:
  assumes "2 \<le> roi_height roi"
  shows "(\<forall>x. xbegin roi \<le> x \<and> x < xend roi \<and> in_image buf x (ybegin roi) \<longrightarrow>
            getpixel (draw_gradient buf roi (s0, s1, s2) (e0, e1, e2)) x (ybegin roi)
              = (Num s0, Num s1, Num s2, Num 1)) \<and>
         (\<forall>x. xbegin roi \<le> x \<and> x < xend roi \<and> in_image buf x (yend roi - 1) \<longrightarrow>
            getpixel (draw_gradient buf roi (s0, s1, s2) (e0, e1, e2)) x (yend roi - 1)
              = (Num e0, Num e1, Num e2, Num 1)) \<and>
         (\<forall>y y'. ybegin roi \<le> y \<and> y < y' \<and> y' < yend roi \<longrightarrow>
            (\<exists>b b'. blend roi y = Num b \<and> blend roi y' = Num b' \<and> b < b')) \<and>
         (\<forall>x x' y. ybegin roi \<le> y \<and> y < yend roi \<and>
            xbegin roi \<le> x \<and> x < xend roi \<and> in_image buf x y \<and>
            xbegin roi \<le> x' \<and> x' < xend roi \<and> in_image buf x' y \<longrightarrow>
            getpixel (draw_gradient buf roi (s0, s1, s2) (e0, e1, e2)) x y
              = getpixel (draw_gradient buf roi (s0, s1, s2) (e0, e1, e2)) x' y) \<and>
         (\<forall>x y. ybegin roi \<le> y \<and> y < yend roi \<and>
            xbegin roi \<le> x \<and> x < xend roi \<and> in_image buf x y \<longrightarrow>
            snd (snd (snd (getpixel (draw_gradient buf roi (s0, s1, s2) (e0, e1, e2)) x y)))
              = Num 1)"
proof -
  have rows: "ybegin roi < yend roi" "ybegin roi \<le> yend roi - 1" "yend roi - 1 < yend roi"
    using assms by (simp_all add: roi_height_def)
  have top: "\<forall>x. xbegin roi \<le> x \<and> x < xend roi \<and> in_image buf x (ybegin roi) \<longrightarrow>
            getpixel (draw_gradient buf roi (s0, s1, s2) (e0, e1, e2)) x (ybegin roi)
              = (Num s0, Num s1, Num s2, Num 1)"
    using rows by (simp add: getpixel_draw_gradient gradient_pixel_top[OF assms])
  have bottom: "\<forall>x. xbegin roi \<le> x \<and> x < xend roi \<and> in_image buf x (yend roi - 1) \<longrightarrow>
            getpixel (draw_gradient buf roi (s0, s1, s2) (e0, e1, e2)) x (yend roi - 1)
              = (Num e0, Num e1, Num e2, Num 1)"
    using rows by (simp add: getpixel_draw_gradient gradient_pixel_bottom[OF assms])
  have mono: "\<forall>y y'. ybegin roi \<le> y \<and> y < y' \<and> y' < yend roi \<longrightarrow>
            (\<exists>b b'. blend roi y = Num b \<and> blend roi y' = Num b' \<and> b < b')"
    using blend_mono[OF assms] by blast
  have row: "\<forall>x x' y. ybegin roi \<le> y \<and> y < yend roi \<and>
            xbegin roi \<le> x \<and> x < xend roi \<and> in_image buf x y \<and>
            xbegin roi \<le> x' \<and> x' < xend roi \<and> in_image buf x' y \<longrightarrow>
            getpixel (draw_gradient buf roi (s0, s1, s2) (e0, e1, e2)) x y
              = getpixel (draw_gradient buf roi (s0, s1, s2) (e0, e1, e2)) x' y"
    by (simp add: getpixel_draw_gradient)
  have alpha: "\<forall>x y. ybegin roi \<le> y \<and> y < yend roi \<and>
            xbegin roi \<le> x \<and> x < xend roi \<and> in_image buf x y \<longrightarrow>
            snd (snd (snd (getpixel (draw_gradient buf roi (s0, s1, s2) (e0, e1, e2)) x y)))
              = Num 1"
    by (simp add: getpixel_draw_gradient alpha_one)
  from top bottom mono row alpha show ?thesis by blast
qed

theorem draw_gradient_rows_witness:
  "2 \<le> roi_height \<lparr>xbegin = 0, xend = 2, ybegin = 0, yend = 3\<rparr> \<and>
   getpixel (draw_gradient (new_ImageBuf 2 3) \<lparr>xbegin = 0, xend = 2, ybegin = 0, yend = 3\<rparr>
               (1 / 2, 0, 0) (4 / 5, 2 / 5, 2 / 5)) 1 0
     = (Num (1 / 2), Num 0, Num 0, Num 1) \<and>
   getpixel (draw_gradient (new_ImageBuf 2 3) \<lparr>xbegin = 0, xend = 2, ybegin = 0, yend = 3\<rparr>
               (1 / 2, 0, 0) (4 / 5, 2 / 5, 2 / 5)) 1 2
     = (Num (4 / 5), Num (2 / 5), Num (2 / 5), Num 1) \<and>
   (\<exists>b b'. blend \<lparr>xbegin = 0, xend = 2, ybegin = 0, yend = 3\<rparr> 1 = Num b \<and>
            blend \<lparr>xbegin = 0, xend = 2, ybegin = 0, yend = 3\<rparr> 2 = Num b' \<and> b < b') \<and>
   getpixel (draw_gradient (new_ImageBuf 2 3) \<lparr>xbegin = 0, xend = 2, ybegin = 0, yend = 3\<rparr>
               (1 / 2, 0, 0) (4 / 5, 2 / 5, 2 / 5)) 0 1
     = getpixel (draw_gradient (new_ImageBuf 2 3) \<lparr>xbegin = 0, xend = 2, ybegin = 0, yend = 3\<rparr>
               (1 / 2, 0, 0) (4 / 5, 2 / 5, 2 / 5)) 1 1 \<and>
   snd (snd (snd (getpixel (draw_gradient (new_ImageBuf 2 3)
               \<lparr>xbegin = 0, xend = 2, ybegin = 0, yend = 3\<rparr>
               (1 / 2, 0, 0) (4 / 5, 2 / 5, 2 / 5)) 0 1))) = Num 1"
proof -
  define roi where "roi = \<lparr>xbegin = 0, xend = 2, ybegin = 0, yend = 3\<rparr>"
  define buf where "buf = new_ImageBuf 2 3"
  have h: "2 \<le> roi_height roi" by (simp add: roi_def roi_height_def)
  have r: "xbegin roi = 0" "xend roi = 2" "ybegin roi = 0" "yend roi = 3"
    by (simp_all add: roi_def)
  have i: "in_image buf 1 0" "in_image buf 1 2" "in_image buf 0 1" "in_image buf 1 1"
    by (simp_all add: buf_def in_image_def new_ImageBuf_def)
  note t = draw_gradient_rows [OF h, of buf "1 / 2" 0 0 "4 / 5" "2 / 5" "2 / 5", unfolded r]
  have top: "getpixel (draw_gradient buf roi (1 / 2, 0, 0) (4 / 5, 2 / 5, 2 / 5)) 1 0
               = (Num (1 / 2), Num 0, Num 0, Num 1)"
    using t i by simp
  have bottom: "getpixel (draw_gradient buf roi (1 / 2, 0, 0) (4 / 5, 2 / 5, 2 / 5)) 1 2
               = (Num (4 / 5), Num (2 / 5), Num (2 / 5), Num 1)"
    using conjunct1 [OF conjunct2 [OF t]] i by simp
  have mono: "\<exists>b b'. blend roi 1 = Num b \<and> blend roi 2 = Num b' \<and> b < b'"
    using conjunct1 [OF conjunct2 [OF conjunct2 [OF t]]] by simp
  have row: "getpixel (draw_gradient buf roi (1 / 2, 0, 0) (4 / 5, 2 / 5, 2 / 5)) 0 1
               = getpixel (draw_gradient buf roi (1 / 2, 0, 0) (4 / 5, 2 / 5, 2 / 5)) 1 1"
    using conjunct1 [OF conjunct2 [OF conjunct2 [OF conjunct2 [OF t]]]] i by simp
  have alpha: "snd (snd (snd (getpixel
               (draw_gradient buf roi (1 / 2, 0, 0) (4 / 5, 2 / 5, 2 / 5)) 0 1))) = Num 1"
    using conjunct2 [OF conjunct2 [OF conjunct2 [OF conjunct2 [OF t]]]] i by simp
  from h top bottom mono row alpha show ?thesis
    unfolding roi_def buf_def by blast
qed

section \<open>Properties of the hue table and of the program\<close>

lemma hues_sorted:
  "hues = [(''azure'', 210), (''blue'', 240), (''cyan'', 180), (''green'', 120),
           (''magenta'', 300), (''orange'', 30), (''red'', 360), (''rose'', 330),
           (''violet'', 270), (''yellow'', 60)]"
  by (simp add: hues_def)

lemma options_hues:
  "options_of hues = ''azure, blue, cyan, green, magenta, orange, red, rose, violet, yellow''"
  by (simp add: hues_sorted options_of_def)

lemma map_find_hues:
  "map_find hues name = Some h \<longleftrightarrow>
     (name, h) \<in> {(''red'', 360), (''orange'', 30), (''yellow'', 60), (''green'', 120),
                  (''cyan'', 180), (''azure'', 210), (''blue'', 240), (''violet'', 270),
                  (''magenta'', 300), (''rose'', 330)}"
  unfolding map_find_def hues_sorted by (simp split: if_splits)

lemma map_find_empty: "map_find hues [] = None"
  by (simp add: map_find_def hues_sorted)

lemma background_found:
  "map_find hues (tool_gradient tool) = Some hue \<Longrightarrow>
   background tool roi buf =
     ([print_info ''tool.gradient: '' (tool_gradient tool)],
      draw_gradient buf roi (rgb_from_hsv (hue, 1, 1 / 2)) (rgb_from_hsv (hue, 1 / 2, 4 / 5)))"
  using map_find_empty by (cases "tool_gradient tool = []") (simp_all add: background_def)

lemma background_missed:
  "tool_gradient tool \<noteq> [] \<Longrightarrow> map_find hues (tool_gradient tool) = None \<Longrightarrow>
   background tool roi buf =
     ([print_info ''tool.gradient: '' (tool_gradient tool),
       print_warning ''could not find hue for gradient: '' (tool_gradient tool),
       print_warning ''available options are: '' (options_of hues)],
      fill buf (color4 (tool_background tool)) roi)"
  by (simp add: background_def)

lemma background_none:
  "tool_gradient tool = [] \<Longrightarrow>
   background tool roi buf = ([], fill buf (color4 (tool_background tool)) roi)"
  by (simp add: background_def)

lemma in_image_new: "in_image (new_ImageBuf w h) x y \<longleftrightarrow> 0 \<le> x \<and> x < w \<and> 0 \<le> y \<and> y < h"
  by (simp add: in_image_def new_ImageBuf_def)

lemma main_runs:
  "\<not> tool_help tool \<Longrightarrow> tool_outputfile tool \<noteq> [] \<Longrightarrow> 1 < argc \<Longrightarrow>
   main env argc tool = titletool env tool"
  by (simp add: main_def)

lemma titletool_canvas: "canvas (titletool env tool) = Some (snd (compose env tool))"
  by (simp add: titletool_def split: prod.splits option.splits)

lemma titletool_stdout: "stdout (titletool env tool) = fst (compose env tool)"
  by (simp add: titletool_def split: prod.splits option.splits)

lemma titletool_exit: "exit_status (titletool env tool) = 0"
  by (simp add: titletool_def split: prod.splits option.splits)

lemma titletool_stderr:
  "stderr (titletool env tool) =
     (case write_image env (snd (compose env tool)) (tool_outputfile tool) of
        None \<Rightarrow> [] | Some msg \<Rightarrow> [print_error ''could not write output file'' msg])"
  by (simp add: titletool_def split: prod.splits option.splits)

lemma compose_stdout:
  "fst (compose env tool) =
     [print_info ''titletool -- a utility for creating title images'' [],
      print_info ''Writing title file: '' (tool_outputfile tool)]
     @ fst (background tool (canvas_roi tool)
              (new_ImageBuf (fst (tool_size tool)) (snd (tool_size tool))))"
  by (simp add: compose_def Let_def split: prod.splits)

text \<open>
  Claim C3, on the code: the two measurements of the layout step take the title string,
  so the measured pair does not depend on the subtitle string at all. For the title
  \<open>Hello, world!\<close> with no subtitle, at the font sizes 200 and 100 of a canvas of height
  1000, the subtitle block is measured with height 100, where its own string (the empty
  one) measures 0. The earlier variant measures the subtitle block from the title at the
  title size (80 for its font sizes 80 and 40).
\<close>

theorem measure_ignores_subtitle:
  "measure env (tool\<lparr>tool_subtitle := st\<rparr>) titlesize subtitlesize font
     = measure env tool titlesize subtitlesize font \<and>
   measure env tool titlesize subtitlesize font
     = (text_size env (tool_title tool) titlesize (font_path env font),
        text_size env (tool_title tool) subtitlesize (font_path env font)) \<and>
   roi_height (snd (measure (demo_env None) (demo_tool ''Hello, world!'' [] []) 200 100
                      ''Roboto.ttf'')) = 100 \<and>
   roi_height (text_size (demo_env None) (tool_subtitle (demo_tool ''Hello, world!'' [] [])) 100
                (font_path (demo_env None) ''Roboto.ttf'')) = 0 \<and>
   roi_height (snd (measure_variant (demo_env None) (demo_tool ''Hello, world!'' [] []) 80 40)) = 80"
  by (simp add: measure_def measure_variant_def demo_env_def demo_tool_def demo_text_size_def
      roi_height_def)

text \<open>
  Claim C4, on the code: in a run that passes the usage checks and in which the write of
  the canvas to the output path fails with a message, the program prints the error with
  the writer's message and then returns 0, which is \<open>EXIT_SUCCESS\<close>.
\<close>

theorem failed_write_exit_status:
  assumes "\<not> tool_help tool" and "tool_outputfile tool \<noteq> []" and "1 < argc"
    and "write_image env (snd (compose env tool)) (tool_outputfile tool) = Some msg"
  shows "exit_status (main env argc tool) = EXIT_SUCCESS \<and>
         stderr (main env argc tool) = [print_error ''could not write output file'' msg]"
  using assms by (simp add: main_runs titletool_exit titletool_stderr EXIT_SUCCESS_def)

theorem failed_write_exit_status_witness:
  "\<not> tool_help (demo_tool ''Hello, world!'' ''An image'' ''blue'') \<and>
   tool_outputfile (demo_tool ''Hello, world!'' ''An image'' ''blue'') \<noteq> [] \<and> (1::int) < 9 \<and>
   write_image (demo_env (Some ''disk full''))
     (snd (compose (demo_env (Some ''disk full'')) (demo_tool ''Hello, world!'' ''An image'' ''blue'')))
     (tool_outputfile (demo_tool ''Hello, world!'' ''An image'' ''blue'')) = Some ''disk full'' \<and>
   exit_status (main (demo_env (Some ''disk full'')) 9 (demo_tool ''Hello, world!'' ''An image'' ''blue''))
     = EXIT_SUCCESS \<and>
   stderr (main (demo_env (Some ''disk full'')) 9 (demo_tool ''Hello, world!'' ''An image'' ''blue''))
     = [''error: could not write output filedisk full'']"
proof -
  have o: "tool_outputfile (demo_tool ''Hello, world!'' ''An image'' ''blue'') \<noteq> []"
    by (simp add: demo_tool_def)
  have h: "\<not> tool_help (demo_tool ''Hello, world!'' ''An image'' ''blue'')"
    by (simp add: demo_tool_def)
  have a: "(1::int) < 9" by simp
  have w: "write_image (demo_env (Some ''disk full''))
     (snd (compose (demo_env (Some ''disk full'')) (demo_tool ''Hello, world!'' ''An image'' ''blue'')))
     (tool_outputfile (demo_tool ''Hello, world!'' ''An image'' ''blue'')) = Some ''disk full''"
    by (simp add: demo_env_def)
  from failed_write_exit_status [OF h o a w] h o a w show ?thesis
    by (simp add: print_error_def)
qed


lemma compose_pixel:
  assumes "\<forall>buf px py text fs font col ax ay.
             getpixel (render_text env buf px py text fs font col ax ay) x y = getpixel buf x y"
  shows "getpixel (snd (compose env tool)) x y =
         getpixel (snd (background tool (canvas_roi tool)
                     (new_ImageBuf (fst (tool_size tool)) (snd (tool_size tool))))) x y"
  by (simp add: compose_def Let_def assms split: prod.splits)

lemma run_pixel:
  assumes "\<not> tool_help tool" "tool_outputfile tool \<noteq> []" "1 < argc"
    and "\<forall>buf px py text fs font col ax ay.
           getpixel (render_text env buf px py text fs font col ax ay) x y = getpixel buf x y"
  shows "\<exists>buf. canvas (main env argc tool) = Some buf \<and>
           getpixel buf x y =
             getpixel (snd (background tool (canvas_roi tool)
                         (new_ImageBuf (fst (tool_size tool)) (snd (tool_size tool))))) x y"
  using compose_pixel [OF assms(4)]
  by (simp add: main_runs [OF assms(1-3)] titletool_canvas)

lemma canvas_roi_simps:
  "xbegin (canvas_roi tool) = 0" "xend (canvas_roi tool) = fst (tool_size tool)"
  "ybegin (canvas_roi tool) = 0" "yend (canvas_roi tool) = snd (tool_size tool)"
  "roi_height (canvas_roi tool) = snd (tool_size tool)"
  by (simp_all add: canvas_roi_def roi_height_def)

lemma gradient_pixel_num:
  "roi_height roi \<noteq> 1 \<Longrightarrow>
   gradient_pixel roi s e y =
     (Num ((1 - real_of_int (y - ybegin roi) / real_of_int (roi_height roi - 1)) * fst s
           + real_of_int (y - ybegin roi) / real_of_int (roi_height roi - 1) * fst e),
      Num ((1 - real_of_int (y - ybegin roi) / real_of_int (roi_height roi - 1)) * fst (snd s)
           + real_of_int (y - ybegin roi) / real_of_int (roi_height roi - 1) * fst (snd e)),
      Num ((1 - real_of_int (y - ybegin roi) / real_of_int (roi_height roi - 1)) * snd (snd s)
           + real_of_int (y - ybegin roi) / real_of_int (roi_height roi - 1) * snd (snd e)),
      Num 1)"
  by (cases s; cases e) (simp add: gradient_pixel_def blend_num mix_num Let_def)

lemma color4_proj: "color4 c = (Num (fst c), Num (fst (snd c)), Num (snd (snd c)), Num 1)"
  by (simp add: color4_def split: prod.splits)

lemma background_pixel_found:
  assumes "map_find hues (tool_gradient tool) = Some hue"
    and "0 \<le> x" "x < fst (tool_size tool)" "0 \<le> y" "y < snd (tool_size tool)"
  shows "getpixel (snd (background tool (canvas_roi tool)
                     (new_ImageBuf (fst (tool_size tool)) (snd (tool_size tool))))) x y
         = gradient_pixel (canvas_roi tool)
             (rgb_from_hsv (hue, 1, 1 / 2)) (rgb_from_hsv (hue, 1 / 2, 4 / 5)) y"
  using assms(2-5)
  by (simp add: background_found [OF assms(1)] getpixel_draw_gradient canvas_roi_simps
      in_image_new)

lemma background_pixel_flat:
  assumes "tool_gradient tool = [] \<or> map_find hues (tool_gradient tool) = None"
    and "0 \<le> x" "x < fst (tool_size tool)" "0 \<le> y" "y < snd (tool_size tool)"
  shows "getpixel (snd (background tool (canvas_roi tool)
                     (new_ImageBuf (fst (tool_size tool)) (snd (tool_size tool))))) x y
         = color4 (tool_background tool)"
proof -
  have "snd (background tool (canvas_roi tool)
              (new_ImageBuf (fst (tool_size tool)) (snd (tool_size tool))))
        = fill (new_ImageBuf (fst (tool_size tool)) (snd (tool_size tool)))
            (color4 (tool_background tool)) (canvas_roi tool)"
    using assms(1) by (cases "tool_gradient tool = []")
      (simp_all add: background_none background_missed)
  with assms(2-5) show ?thesis
    by (simp add: getpixel_fill canvas_roi_simps in_image_new)
qed

text \<open>
  Claim C7, on the code. In a run that passes the help and usage checks, take a pixel of
  the canvas that the drawing of the text leaves as it is. With a gradient name of the
  hue table and a canvas of at least 2 rows, the pixel has the colour interpolated
  between the RGB colour of HSV(hue, 1.0, 0.5) and the RGB colour of HSV(hue, 0.5, 0.8)
  with the blend factor \<open>y / (height - 1)\<close>: the top row has the start colour and the
  bottom row the end colour. With no gradient name, or a name that the table does not
  hold, the pixel has the configured background colour with alpha 1. On a canvas of a
  single row, however, the three colour channels of the pixel of a found gradient are
  not numbers, and the pixel is not the start colour: this is the division by zero of
  \<open>draw_gradient\<close> (claim C5).
\<close>

theorem run_background:
  assumes "\<not> tool_help tool" and "tool_outputfile tool \<noteq> []" and "1 < argc"
    and "\<forall>buf px py text fs font col ax ay.
           getpixel (render_text env buf px py text fs font col ax ay) x y = getpixel buf x y"
    and "0 \<le> x" and "x < fst (tool_size tool)" and "0 \<le> y" and "y < snd (tool_size tool)"
  shows "\<exists>buf. canvas (main env argc tool) = Some buf \<and>
           (\<forall>hue. map_find hues (tool_gradient tool) = Some hue \<and> 2 \<le> snd (tool_size tool) \<longrightarrow>
              getpixel buf x y =
                (Num ((1 - real_of_int y / real_of_int (snd (tool_size tool) - 1))
                        * fst (rgb_from_hsv (hue, 1, 1 / 2))
                      + real_of_int y / real_of_int (snd (tool_size tool) - 1)
                        * fst (rgb_from_hsv (hue, 1 / 2, 4 / 5))),
                 Num ((1 - real_of_int y / real_of_int (snd (tool_size tool) - 1))
                        * fst (snd (rgb_from_hsv (hue, 1, 1 / 2)))
                      + real_of_int y / real_of_int (snd (tool_size tool) - 1)
                        * fst (snd (rgb_from_hsv (hue, 1 / 2, 4 / 5)))),
                 Num ((1 - real_of_int y / real_of_int (snd (tool_size tool) - 1))
                        * snd (snd (rgb_from_hsv (hue, 1, 1 / 2)))
                      + real_of_int y / real_of_int (snd (tool_size tool) - 1)
                        * snd (snd (rgb_from_hsv (hue, 1 / 2, 4 / 5)))),
                 Num 1) \<and>
              (y = 0 \<longrightarrow> getpixel buf x y = color4 (rgb_from_hsv (hue, 1, 1 / 2))) \<and>
              (y = snd (tool_size tool) - 1 \<longrightarrow>
                 getpixel buf x y = color4 (rgb_from_hsv (hue, 1 / 2, 4 / 5)))) \<and>
           (\<forall>hue. map_find hues (tool_gradient tool) = Some hue \<and> snd (tool_size tool) = 1 \<longrightarrow>
              getpixel buf x y = (NonFinite, NonFinite, NonFinite, Num 1) \<and>
              getpixel buf x y \<noteq> color4 (rgb_from_hsv (hue, 1, 1 / 2))) \<and>
           (tool_gradient tool = [] \<or> map_find hues (tool_gradient tool) = None \<longrightarrow>
              getpixel buf x y = color4 (tool_background tool))"
proof -
  let ?bg = "snd (background tool (canvas_roi tool)
                    (new_ImageBuf (fst (tool_size tool)) (snd (tool_size tool))))"
  let ?h = "snd (tool_size tool)"
  obtain buf where c: "canvas (main env argc tool) = Some buf"
    and p: "getpixel buf x y = getpixel ?bg x y"
    using run_pixel [OF assms(1-4)] by blast
  have found: "getpixel buf x y = gradient_pixel (canvas_roi tool)
        (rgb_from_hsv (hue, 1, 1 / 2)) (rgb_from_hsv (hue, 1 / 2, 4 / 5)) y"
    if "map_find hues (tool_gradient tool) = Some hue" for hue
    using background_pixel_found [OF that assms(5-8)] p by simp
  have grad: "getpixel buf x y =
                (Num ((1 - real_of_int y / real_of_int (?h - 1))
                        * fst (rgb_from_hsv (hue, 1, 1 / 2))
                      + real_of_int y / real_of_int (?h - 1)
                        * fst (rgb_from_hsv (hue, 1 / 2, 4 / 5))),
                 Num ((1 - real_of_int y / real_of_int (?h - 1))
                        * fst (snd (rgb_from_hsv (hue, 1, 1 / 2)))
                      + real_of_int y / real_of_int (?h - 1)
                        * fst (snd (rgb_from_hsv (hue, 1 / 2, 4 / 5)))),
                 Num ((1 - real_of_int y / real_of_int (?h - 1))
                        * snd (snd (rgb_from_hsv (hue, 1, 1 / 2)))
                      + real_of_int y / real_of_int (?h - 1)
                        * snd (snd (rgb_from_hsv (hue, 1 / 2, 4 / 5)))),
                 Num 1)"
    if "map_find hues (tool_gradient tool) = Some hue" "2 \<le> ?h" for hue
  proof -
    have "roi_height (canvas_roi tool) \<noteq> 1" using that(2) by (simp add: canvas_roi_simps)
    from gradient_pixel_num [OF this] found [OF that(1)] show ?thesis
      by (simp add: canvas_roi_simps)
  qed
  have top: "getpixel buf x y = color4 (rgb_from_hsv (hue, 1, 1 / 2))"
    if "map_find hues (tool_gradient tool) = Some hue" "2 \<le> ?h" "y = 0" for hue
    using grad [OF that(1,2)] that(3) by (simp add: color4_proj)
  have bottom: "getpixel buf x y = color4 (rgb_from_hsv (hue, 1 / 2, 4 / 5))"
    if "map_find hues (tool_gradient tool) = Some hue" "2 \<le> ?h" "y = ?h - 1" for hue
  proof -
    have "real_of_int y / real_of_int (?h - 1) = 1" using that(2,3) by simp
    with grad [OF that(1,2)] show ?thesis by (simp add: color4_proj)
  qed
  have single: "getpixel buf x y = (NonFinite, NonFinite, NonFinite, Num 1) \<and>
      getpixel buf x y \<noteq> color4 (rgb_from_hsv (hue, 1, 1 / 2))"
    if "map_find hues (tool_gradient tool) = Some hue" "?h = 1" for hue
  proof -
    have "roi_height (canvas_roi tool) = 1" using that(2) by (simp add: canvas_roi_simps)
    from gradient_pixel_single [OF this] found [OF that(1)] show ?thesis
      by (simp add: color4_proj)
  qed
  have flat: "getpixel buf x y = color4 (tool_background tool)"
    if "tool_gradient tool = [] \<or> map_find hues (tool_gradient tool) = None"
    using background_pixel_flat [OF that assms(5-8)] p by simp
  show ?thesis
    apply (intro exI [of _ buf] conjI allI impI)
    subgoal by (rule c)
    subgoal by (elim conjE, rule grad, assumption+)
    subgoal by (elim conjE, rule top, assumption+)
    subgoal by (elim conjE, rule bottom, assumption+)
    subgoal by (elim conjE, rule single [THEN conjunct1], assumption+)
    subgoal by (elim conjE, rule single [THEN conjunct2], assumption+)
    subgoal by (rule flat)
    done
qed

theorem run_background_witness:
  "(\<exists>buf. canvas (main (demo_env None) 9 (demo_tool ''Hello, world!'' ''An image'' ''blue''))
            = Some buf \<and>
          getpixel buf 10 0 = (Num 0, Num 0, Num (1 / 2), Num 1)) \<and>
   (\<exists>buf. canvas (main (demo_env None) 9 (demo_tool ''Hello, world!'' ''An image'' ''blue''))
            = Some buf \<and>
          getpixel buf 10 999 = (Num (2 / 5), Num (2 / 5), Num (4 / 5), Num 1)) \<and>
   (\<exists>buf. canvas (main (demo_env None) 9
              ((demo_tool ''Hello, world!'' ''An image'' ''red'')\<lparr>tool_size := (4, 1)\<rparr>))
            = Some buf \<and>
          getpixel buf 0 0 = (NonFinite, NonFinite, NonFinite, Num 1) \<and>
          getpixel buf 0 0 \<noteq> (Num (1 / 2), Num 0, Num 0, Num 1)) \<and>
   color4 (rgb_from_hsv (360, 1, 1 / 2)) = (Num (1 / 2), Num 0, Num 0, Num 1) \<and>
   (\<exists>buf. canvas (main (demo_env None) 9 (demo_tool ''Hello, world!'' ''An image'' ''teal''))
            = Some buf \<and>
          getpixel buf 10 20 = (Num 0, Num 0, Num 0, Num 1))"
proof -
  define tb where "tb = demo_tool ''Hello, world!'' ''An image'' ''blue''"
  define tr where "tr = (demo_tool ''Hello, world!'' ''An image'' ''red'')\<lparr>tool_size := (4, 1)\<rparr>"
  define tt where "tt = demo_tool ''Hello, world!'' ''An image'' ''teal''"
  define env where "env = demo_env None"
  have keep: "\<forall>buf px py text fs font col ax ay.
      getpixel (render_text env buf px py text fs font col ax ay) x y = getpixel buf x y" for x y
    by (simp add: env_def demo_env_def)
  have b: "\<not> tool_help tb" "tool_outputfile tb \<noteq> []" "tool_size tb = (2350, 1000)"
    "map_find hues (tool_gradient tb) = Some 240"
    by (simp_all add: tb_def demo_tool_def map_find_def hues_sorted)
  have r: "\<not> tool_help tr" "tool_outputfile tr \<noteq> []" "tool_size tr = (4, 1)"
    "map_find hues (tool_gradient tr) = Some 360"
    by (simp_all add: tr_def demo_tool_def map_find_def hues_sorted)
  have t: "\<not> tool_help tt" "tool_outputfile tt \<noteq> []" "tool_size tt = (2350, 1000)"
    "map_find hues (tool_gradient tt) = None" "tool_background tt = (0, 0, 0)"
    by (simp_all add: tt_def demo_tool_def map_find_def hues_sorted)
  have a: "(1::int) < 9" by simp
  have c1: "rgb_from_hsv (240, 1, 1 / 2) = (0, 0, 1 / 2)"
    by (simp add: rgb_from_hsv_def hsv_hue_def flt_epsilon_def hsv_hi_def c_mod_def c_div_def
        hsv_p_def hsv_q_def hsv_t_def hsv_f_def Let_def)
  have c2: "rgb_from_hsv (240, 1 / 2, 4 / 5) = (2 / 5, 2 / 5, 4 / 5)"
    by (simp add: rgb_from_hsv_def hsv_hue_def flt_epsilon_def hsv_hi_def c_mod_def c_div_def
        hsv_p_def hsv_q_def hsv_t_def hsv_f_def Let_def)
  have c3: "rgb_from_hsv (360, 1, 1 / 2) = (1 / 2, 0, 0)"
    by (simp add: rgb_from_hsv_def hsv_hue_def flt_epsilon_def hsv_hi_def c_mod_def c_div_def
        hsv_p_def hsv_q_def hsv_t_def hsv_f_def Let_def)
  have start: "color4 (rgb_from_hsv (360, 1, 1 / 2)) = (Num (1 / 2), Num 0, Num 0, Num 1)"
    by (simp add: c3 color4_proj)
  have top: "\<exists>buf. canvas (main env 9 tb) = Some buf \<and>
      getpixel buf 10 0 = (Num 0, Num 0, Num (1 / 2), Num 1)"
    using run_background [of tb 9 env 10 0, OF b(1) b(2) a keep]
    by (auto simp add: b c1 color4_proj)
  have bottom: "\<exists>buf. canvas (main env 9 tb) = Some buf \<and>
      getpixel buf 10 999 = (Num (2 / 5), Num (2 / 5), Num (4 / 5), Num 1)"
    using run_background [of tb 9 env 10 999, OF b(1) b(2) a keep]
    by (auto simp add: b c2 color4_proj)
  have single: "\<exists>buf. canvas (main env 9 tr) = Some buf \<and>
      getpixel buf 0 0 = (NonFinite, NonFinite, NonFinite, Num 1) \<and>
      getpixel buf 0 0 \<noteq> (Num (1 / 2), Num 0, Num 0, Num 1)"
    using run_background [of tr 9 env 0 0, OF r(1) r(2) a keep]
    by (auto simp add: r)
  have flat: "\<exists>buf. canvas (main env 9 tt) = Some buf \<and>
      getpixel buf 10 20 = (Num 0, Num 0, Num 0, Num 1)"
    using run_background [of tt 9 env 10 20, OF t(1) t(2) a keep]
    by (auto simp add: t color4_proj)
  show ?thesis
    unfolding tb_def [symmetric] tr_def [symmetric] tt_def [symmetric] env_def [symmetric]
    by (rule conjI [OF top conjI [OF bottom conjI [OF single conjI [OF start flat]]]])
qed

text \<open>
  Claim C8. The lookup finds exactly the ten entries red=360, orange=30, yellow=60,
  green=120, cyan=180, azure=210, blue=240, violet=270, magenta=300, rose=330, by exact
  match (\<open>Red\<close> is not found). For every other name that is not empty, the run prints the
  warning that names the value and the warning that lists the ten valid names, goes on
  with the flat fill of the canvas and ends with status 0: every pixel of the canvas of
  the run that the drawing of the text leaves as it is has the configured background
  colour with alpha 1. With the empty name nothing of the lookup is printed: the table is
  not consulted.
\<close>

theorem hue_lookup_miss:
  "(map_find hues name = Some h \<longleftrightarrow>
      (name, h) \<in> {(''red'', 360), (''orange'', 30), (''yellow'', 60), (''green'', 120),
                   (''cyan'', 180), (''azure'', 210), (''blue'', 240), (''violet'', 270),
                   (''magenta'', 300), (''rose'', 330)}) \<and>
   map_find hues ''Red'' = None \<and>
   (tool_gradient tool \<noteq> [] \<and> map_find hues (tool_gradient tool) = None \<and>
    \<not> tool_help tool \<and> tool_outputfile tool \<noteq> [] \<and> 1 < argc \<longrightarrow>
      stdout (main env argc tool) =
        [print_info ''titletool -- a utility for creating title images'' [],
         print_info ''Writing title file: '' (tool_outputfile tool),
         print_info ''tool.gradient: '' (tool_gradient tool),
         print_warning ''could not find hue for gradient: '' (tool_gradient tool),
         print_warning ''available options are: ''
           ''azure, blue, cyan, green, magenta, orange, red, rose, violet, yellow''] \<and>
      exit_status (main env argc tool) = EXIT_SUCCESS \<and>
      canvas (main env argc tool) = Some (snd (compose env tool)) \<and>
      snd (background tool (canvas_roi tool)
             (new_ImageBuf (fst (tool_size tool)) (snd (tool_size tool))))
        = fill (new_ImageBuf (fst (tool_size tool)) (snd (tool_size tool)))
            (color4 (tool_background tool)) (canvas_roi tool) \<and>
      (\<forall>x y. (\<forall>buf px py text fs font col ax ay.
                 getpixel (render_text env buf px py text fs font col ax ay) x y
                   = getpixel buf x y) \<and>
             0 \<le> x \<and> x < fst (tool_size tool) \<and> 0 \<le> y \<and> y < snd (tool_size tool) \<longrightarrow>
             getpixel (snd (compose env tool)) x y = color4 (tool_background tool))) \<and>
   (tool_gradient tool = [] \<and> \<not> tool_help tool \<and> tool_outputfile tool \<noteq> [] \<and> 1 < argc \<longrightarrow>
      stdout (main env argc tool) =
        [print_info ''titletool -- a utility for creating title images'' [],
         print_info ''Writing title file: '' (tool_outputfile tool)])"
proof -
  have table: "map_find hues name = Some h \<longleftrightarrow>
      (name, h) \<in> {(''red'', 360), (''orange'', 30), (''yellow'', 60), (''green'', 120),
                   (''cyan'', 180), (''azure'', 210), (''blue'', 240), (''violet'', 270),
                   (''magenta'', 300), (''rose'', 330)}"
    by (rule map_find_hues)
  have upper: "map_find hues ''Red'' = None"
    by (simp add: map_find_def hues_sorted)
  have miss: "tool_gradient tool \<noteq> [] \<and> map_find hues (tool_gradient tool) = None \<and>
    \<not> tool_help tool \<and> tool_outputfile tool \<noteq> [] \<and> 1 < argc \<longrightarrow>
      stdout (main env argc tool) =
        [print_info ''titletool -- a utility for creating title images'' [],
         print_info ''Writing title file: '' (tool_outputfile tool),
         print_info ''tool.gradient: '' (tool_gradient tool),
         print_warning ''could not find hue for gradient: '' (tool_gradient tool),
         print_warning ''available options are: ''
           ''azure, blue, cyan, green, magenta, orange, red, rose, violet, yellow''] \<and>
      exit_status (main env argc tool) = EXIT_SUCCESS \<and>
      canvas (main env argc tool) = Some (snd (compose env tool)) \<and>
      snd (background tool (canvas_roi tool)
             (new_ImageBuf (fst (tool_size tool)) (snd (tool_size tool))))
        = fill (new_ImageBuf (fst (tool_size tool)) (snd (tool_size tool)))
            (color4 (tool_background tool)) (canvas_roi tool) \<and>
      (\<forall>x y. (\<forall>buf px py text fs font col ax ay.
                 getpixel (render_text env buf px py text fs font col ax ay) x y
                   = getpixel buf x y) \<and>
             0 \<le> x \<and> x < fst (tool_size tool) \<and> 0 \<le> y \<and> y < snd (tool_size tool) \<longrightarrow>
             getpixel (snd (compose env tool)) x y = color4 (tool_background tool))"
  proof (intro impI, elim conjE)
    assume g: "tool_gradient tool \<noteq> []" "map_find hues (tool_gradient tool) = None"
      and r: "\<not> tool_help tool" "tool_outputfile tool \<noteq> []" "1 < argc"
    have m: "main env argc tool = titletool env tool" by (rule main_runs [OF r])
    note b = background_missed [OF g, unfolded options_hues]
    have out: "stdout (main env argc tool) =
        [print_info ''titletool -- a utility for creating title images'' [],
         print_info ''Writing title file: '' (tool_outputfile tool),
         print_info ''tool.gradient: '' (tool_gradient tool),
         print_warning ''could not find hue for gradient: '' (tool_gradient tool),
         print_warning ''available options are: ''
           ''azure, blue, cyan, green, magenta, orange, red, rose, violet, yellow'']"
      unfolding m titletool_stdout compose_stdout b fst_conv by (simp only: append.simps)
    have ex: "exit_status (main env argc tool) = EXIT_SUCCESS"
      unfolding m titletool_exit EXIT_SUCCESS_def by (rule refl)
    have cv: "canvas (main env argc tool) = Some (snd (compose env tool))"
      unfolding m by (rule titletool_canvas)
    have bg: "snd (background tool (canvas_roi tool)
             (new_ImageBuf (fst (tool_size tool)) (snd (tool_size tool))))
        = fill (new_ImageBuf (fst (tool_size tool)) (snd (tool_size tool)))
            (color4 (tool_background tool)) (canvas_roi tool)"
      unfolding b snd_conv by (rule refl)
    have px: "\<forall>x y. (\<forall>buf px py text fs font col ax ay.
                 getpixel (render_text env buf px py text fs font col ax ay) x y
                   = getpixel buf x y) \<and>
             0 \<le> x \<and> x < fst (tool_size tool) \<and> 0 \<le> y \<and> y < snd (tool_size tool) \<longrightarrow>
             getpixel (snd (compose env tool)) x y = color4 (tool_background tool)"
    proof (intro allI impI, elim conjE)
      fix x y
      assume k: "\<forall>buf px py text fs font col ax ay.
                 getpixel (render_text env buf px py text fs font col ax ay) x y
                   = getpixel buf x y"
        and p: "0 \<le> x" "x < fst (tool_size tool)" "0 \<le> y" "y < snd (tool_size tool)"
      show "getpixel (snd (compose env tool)) x y = color4 (tool_background tool)"
        unfolding compose_pixel [OF k]
        by (rule background_pixel_flat [OF disjI2 [OF g(2)] p])
    qed
    show "stdout (main env argc tool) =
        [print_info ''titletool -- a utility for creating title images'' [],
         print_info ''Writing title file: '' (tool_outputfile tool),
         print_info ''tool.gradient: '' (tool_gradient tool),
         print_warning ''could not find hue for gradient: '' (tool_gradient tool),
         print_warning ''available options are: ''
           ''azure, blue, cyan, green, magenta, orange, red, rose, violet, yellow''] \<and>
      exit_status (main env argc tool) = EXIT_SUCCESS \<and>
      canvas (main env argc tool) = Some (snd (compose env tool)) \<and>
      snd (background tool (canvas_roi tool)
             (new_ImageBuf (fst (tool_size tool)) (snd (tool_size tool))))
        = fill (new_ImageBuf (fst (tool_size tool)) (snd (tool_size tool)))
            (color4 (tool_background tool)) (canvas_roi tool) \<and>
      (\<forall>x y. (\<forall>buf px py text fs font col ax ay.
                 getpixel (render_text env buf px py text fs font col ax ay) x y
                   = getpixel buf x y) \<and>
             0 \<le> x \<and> x < fst (tool_size tool) \<and> 0 \<le> y \<and> y < snd (tool_size tool) \<longrightarrow>
             getpixel (snd (compose env tool)) x y = color4 (tool_background tool))"
      by (rule conjI [OF out conjI [OF ex conjI [OF cv conjI [OF bg px]]]])
  qed
  have none: "tool_gradient tool = [] \<and> \<not> tool_help tool \<and> tool_outputfile tool \<noteq> [] \<and>
      1 < argc \<longrightarrow>
      stdout (main env argc tool) =
        [print_info ''titletool -- a utility for creating title images'' [],
         print_info ''Writing title file: '' (tool_outputfile tool)]"
  proof (intro impI, elim conjE)
    assume g: "tool_gradient tool = []"
      and r: "\<not> tool_help tool" "tool_outputfile tool \<noteq> []" "1 < argc"
    have m: "main env argc tool = titletool env tool" by (rule main_runs [OF r])
    show "stdout (main env argc tool) =
        [print_info ''titletool -- a utility for creating title images'' [],
         print_info ''Writing title file: '' (tool_outputfile tool)]"
      unfolding m titletool_stdout compose_stdout background_none [OF g] fst_conv
      by (rule append_Nil2)
  qed
  show ?thesis
    by (rule conjI [OF table conjI [OF upper conjI [OF miss none]]])
qed

theorem hue_lookup_miss_witness:
  "map_find hues ''blue'' = Some 240 \<and>
   tool_gradient (demo_tool ''Hello, world!'' ''An image'' ''teal'') \<noteq> [] \<and>
   map_find hues (tool_gradient (demo_tool ''Hello, world!'' ''An image'' ''teal'')) = None \<and>
   \<not> tool_help (demo_tool ''Hello, world!'' ''An image'' ''teal'') \<and>
   tool_outputfile (demo_tool ''Hello, world!'' ''An image'' ''teal'') \<noteq> [] \<and> (1::int) < 9 \<and>
   stdout (main (demo_env None) 9 (demo_tool ''Hello, world!'' ''An image'' ''teal'')) =
     [''info: titletool -- a utility for creating title images'',
      ''info: Writing title file: title.png'',
      ''info: tool.gradient: teal'',
      ''warning: could not find hue for gradient: teal'',
      ''warning: available options are: azure, blue, cyan, green, magenta, orange, red, rose, violet, yellow''] \<and>
   exit_status (main (demo_env None) 9 (demo_tool ''Hello, world!'' ''An image'' ''teal'')) = EXIT_SUCCESS \<and>
   canvas (main (demo_env None) 9 (demo_tool ''Hello, world!'' ''An image'' ''teal''))
     = Some (snd (compose (demo_env None) (demo_tool ''Hello, world!'' ''An image'' ''teal''))) \<and>
   getpixel (snd (compose (demo_env None) (demo_tool ''Hello, world!'' ''An image'' ''teal''))) 10 20
     = (Num 0, Num 0, Num 0, Num 1) \<and>
   tool_gradient (demo_tool ''Hello, world!'' ''An image'' []) = [] \<and>
   stdout (main (demo_env None) 9 (demo_tool ''Hello, world!'' ''An image'' [])) =
     [''info: titletool -- a utility for creating title images'',
      ''info: Writing title file: title.png'']"
proof -
  define tt where "tt = demo_tool ''Hello, world!'' ''An image'' ''teal''"
  define tn where "tn = demo_tool ''Hello, world!'' ''An image'' []"
  have t: "tool_gradient tt \<noteq> []" "map_find hues (tool_gradient tt) = None"
    "\<not> tool_help tt" "tool_outputfile tt \<noteq> []" "(1::int) < 9"
    by (simp_all add: tt_def demo_tool_def map_find_def hues_sorted)
  have tv: "tool_gradient tt = ''teal''" "tool_outputfile tt = ''title.png''"
    by (simp_all add: tt_def demo_tool_def)
  have n: "tool_gradient tn = []" "\<not> tool_help tn" "tool_outputfile tn \<noteq> []"
    by (simp_all add: tn_def demo_tool_def)
  have nv: "tool_outputfile tn = ''title.png''"
    by (simp add: tn_def demo_tool_def)
  have blue: "map_find hues ''blue'' = Some 240"
    using conjunct1 [OF hue_lookup_miss [of "''blue''" 240]] by simp
  have m: "stdout (main (demo_env None) 9 tt) =
     [''info: titletool -- a utility for creating title images'',
      ''info: Writing title file: title.png'',
      ''info: tool.gradient: teal'',
      ''warning: could not find hue for gradient: teal'',
      ''warning: available options are: azure, blue, cyan, green, magenta, orange, red, rose, violet, yellow'']"
    and x: "exit_status (main (demo_env None) 9 tt) = EXIT_SUCCESS"
    and cv: "canvas (main (demo_env None) 9 tt) = Some (snd (compose (demo_env None) tt))"
    using conjunct1 [OF conjunct2 [OF conjunct2 [OF hue_lookup_miss [of "[]" 0 tt 9 "demo_env None"]]]] t
    by (simp_all add: tv print_info_def print_warning_def)
  have e: "stdout (main (demo_env None) 9 tn) =
     [''info: titletool -- a utility for creating title images'',
      ''info: Writing title file: title.png'']"
    using conjunct2 [OF conjunct2 [OF conjunct2 [OF hue_lookup_miss [of "[]" 0 tn 9 "demo_env None"]]]] n t(5)
    by (simp add: nv print_info_def)
  have keep: "\<forall>buf px py text fs font col ax ay.
      getpixel (render_text (demo_env None) buf px py text fs font col ax ay) 10 20
        = getpixel buf 10 20"
    by (simp add: demo_env_def)
  have sz: "tool_size tt = (2350, 1000)" "tool_background tt = (0, 0, 0)"
    by (simp_all add: tt_def demo_tool_def)
  note al = conjunct2 [OF conjunct2 [OF conjunct2 [OF conjunct2 [OF mp [OF
    conjunct1 [OF conjunct2 [OF conjunct2 [OF hue_lookup_miss [of "[]" 0 tt 9 "demo_env None"]]]]
    conjI [OF t(1) conjI [OF t(2) conjI [OF t(3) conjI [OF t(4) t(5)]]]]]]]]]
  have px: "getpixel (snd (compose (demo_env None) tt)) 10 20 = (Num 0, Num 0, Num 0, Num 1)"
    using al [rule_format, of 10 20] keep by (simp add: sz color4_proj)
  from blue t m x cv px n(1) e show ?thesis unfolding tt_def tn_def by blast
qed

end
